theory Spec2Isabelle
  imports Main "HOL-Library.Sublist" "HOL-Library.Multiset" "HOL-Library.Char_ord"
    "HOL-Library.List_Lexorder" "HOL-Library.Product_Lexorder"
begin

section \<open>Error objects and string helpers\<close>

text \<open>
  Every value the code throws or receives in an \<open>error\<close> slot is a JavaScript object of
  which the code reads \<open>message\<close>, \<open>code\<close>, \<open>status\<close> and whether it is an
  \<open>instanceof Error\<close>. A field that is \<open>undefined\<close> is \<open>None\<close>.
\<close>

record js_error =
  message :: "string option"
  code :: "string option"
  status :: "int option"
  instanceof_Error :: bool

text \<open>\<open>new Error(msg)\<close>.\<close>

definition Error :: "string \<Rightarrow> js_error" where
  "Error msg = \<lparr>message = Some msg, code = None, status = None, instanceof_Error = True\<rparr>"

text \<open>\<open>s.includes(pat)\<close>: \<open>pat\<close> occurs in \<open>s\<close> as a contiguous run.\<close>

fun str_includes :: "string \<Rightarrow> string \<Rightarrow> bool" where
  "str_includes [] pat = (pat = [])"
| "str_includes (c # cs) pat = (prefix pat (c # cs) \<or> str_includes cs pat)"

text \<open>
  \<open>error.message?.includes(pat)\<close>: \<open>undefined\<close> (falsy) when there is no message.
\<close>

definition message_includes :: "js_error \<Rightarrow> string \<Rightarrow> bool" where
  "message_includes e pat = (case message e of None \<Rightarrow> False | Some m \<Rightarrow> str_includes m pat)"

text \<open>
  Interpolation of a possibly undefined string in a template literal.
\<close>

definition interpolate :: "string option \<Rightarrow> string" where
  "interpolate v = (case v of None \<Rightarrow> ''undefined'' | Some s \<Rightarrow> s)"

text \<open>
  The response object \<open>{ data, error }\<close> of a backend call; \<open>null\<close> is \<open>None\<close>.
\<close>

record 'a response =
  data :: "'a option"
  error :: "js_error option"

section \<open>Session accessor: signOut\<close>

text \<open>
  The condition both branches of \<open>signOut\<close> test: the message mentions a session or 403,
  or the status is 403.
\<close>

definition session_already_invalid :: "js_error \<Rightarrow> bool" where
  "session_already_invalid e =
     (message_includes e ''session'' \<or> message_includes e ''Session'' \<or>
      message_includes e ''403'' \<or> status e = Some 403)"

text \<open>
  \<open>signOut\<close> awaits \<open>supabase.auth.signOut({ scope: 'local' })\<close>. The call is the
  argument: it either rejects with a thrown value (\<open>Inl\<close>) or resolves to the
  \<open>error\<close> field of its result. The function's own result is \<open>Inl\<close> for a throw and
  \<open>Inr ()\<close> for a normal return.
\<close>

definition signOut_try :: "js_error + js_error option \<Rightarrow> js_error + unit" where
  "signOut_try call =
     (case call of
        Inl thrown \<Rightarrow> Inl thrown
      | Inr None \<Rightarrow> Inr ()
      | Inr (Some e) \<Rightarrow> (if session_already_invalid e then Inr () else Inl e))"

definition signOut :: "js_error + js_error option \<Rightarrow> js_error + unit" where
  "signOut call =
     (case signOut_try call of
        Inr u \<Rightarrow> Inr u
      | Inl e \<Rightarrow> (if session_already_invalid e then Inr () else Inl e))"

section \<open>Profile store\<close>

record profile =
  profile_id :: string
  profile_user_id :: string
  full_name :: string
  avatar_id :: "int option"

text \<open>What \<open>supabase.auth.getUser()\<close> resolves to: \<open>{ data: { user }, error }\<close>.\<close>

record auth_response =
  user :: "string option"
  auth_error :: "js_error option"

text \<open>
  The two backend calls of \<open>getProfile\<close>, each rejecting (\<open>Inl\<close>) or resolving to its
  response. The query is
  \<open>from('profiles').select('*').eq('user_id', user.id).single()\<close>, asked for the
  user the first call returned.
\<close>

record profile_backend =
  getUser_call :: "js_error + auth_response"
  profiles_query :: "string \<Rightarrow> js_error + profile response"

definition getProfile_try :: "profile_backend \<Rightarrow> js_error + profile option" where
  "getProfile_try b =
     (case getUser_call b of
        Inl thrown \<Rightarrow> Inl thrown
      | Inr a \<Rightarrow>
          (case (auth_error a, user a) of
             (Some _, _) \<Rightarrow> Inl (Error ''User not authenticated'')
           | (None, None) \<Rightarrow> Inl (Error ''User not authenticated'')
           | (None, Some uid) \<Rightarrow>
               (case profiles_query b uid of
                  Inl thrown \<Rightarrow> Inl thrown
                | Inr r \<Rightarrow>
                    (case error r of
                       Some e \<Rightarrow>
                         if code e = Some ''PGRST116'' then Inr None
                         else if code e = Some ''42P01'' \<or>
                                 message_includes e ''does not exist'' then Inr None
                         else Inl e
                     | None \<Rightarrow> Inr (data r)))))"

definition getProfile :: "profile_backend \<Rightarrow> js_error + profile option" where
  "getProfile b =
     (case getProfile_try b of
        Inr p \<Rightarrow> Inr p
      | Inl e \<Rightarrow>
          if message_includes e ''does not exist'' \<or> code e = Some ''42P01'' then Inr None
          else Inl e)"

definition hasProfile :: "profile_backend \<Rightarrow> js_error + bool" where
  "hasProfile b =
     (case getProfile b of
        Inr p \<Rightarrow> Inr (p \<noteq> None)
      | Inl e \<Rightarrow> Inr False)"

section \<open>Task store\<close>

datatype priority = High | Medium | Low

text \<open>
  Instants (\<open>TIMESTAMPTZ\<close> columns, \<open>new Date().toISOString()\<close>) are points of a
  linear clock. Calendar dates are the ISO strings \<open>YYYY-MM-DD\<close> the \<open>DATE\<close> column
  is read and written as; on such strings the lexicographic order is the calendar order.
\<close>

type_synonym timestamp = nat

text \<open>The row type \<open>Task\<close> of \<open>lib/tasks.ts\<close>.\<close>

record task =
  task_id :: string
  user_id :: string
  title :: string
  description :: "string option"
  priority :: priority
  date :: string
  completed :: bool
  completed_at :: "timestamp option"
  created_at :: timestamp
  updated_at :: timestamp

text \<open>
  The hosted backend as the task store sees it: the signed-in user of the current session
  (whose id the row-level-security policies compare with \<open>user_id\<close>), the error
  \<open>supabase.auth.getUser()\<close> reports if any, an outage that makes every table request
  answer with an error, the rows of table \<open>tasks\<close> in insertion order, and the server's
  clock \<open>NOW()\<close>.

  The backend is a service outside the repository. What a request does to the table is
  written out below (\<open>db_select_incomplete\<close>, \<open>db_insert\<close>, \<open>db_update\<close>,
  \<open>db_delete\<close>) from the migration that creates the table (columns and their defaults,
  primary key, policies, the \<open>updated_at\<close> trigger) and from the request each chain of
  client calls builds; the functions of \<open>lib/tasks.ts\<close> are translated on top of them.
  Column \<open>due_date\<close>, which the row type of \<open>lib/tasks.ts\<close> does not have, is left
  out.
\<close>

record backend =
  session_user :: "string option"
  getUser_error :: "js_error option"
  outage :: "js_error option"
  tasks_table :: "task list"
  server_now :: timestamp

definition auth_getUser :: "backend \<Rightarrow> auth_response" where
  "auth_getUser b = \<lparr>user = session_user b, auth_error = getUser_error b\<rparr>"

text \<open>The policies \<open>USING (auth.uid() = user_id)\<close> of the migration.\<close>

definition rls_visible :: "backend \<Rightarrow> task \<Rightarrow> bool" where
  "rls_visible b t = (session_user b = Some (user_id t))"

definition rls_violation :: js_error where
  "rls_violation =
     \<lparr>message = Some ''new row violates row-level security policy for table tasks'',
      code = Some ''42501'', status = None, instanceof_Error = True\<rparr>"

definition unique_violation :: js_error where
  "unique_violation =
     \<lparr>message = Some ''duplicate key value violates unique constraint tasks_pkey'',
      code = Some ''23505'', status = None, instanceof_Error = True\<rparr>"

text \<open>What \<open>.single()\<close> answers when the request does not yield exactly one row.\<close>

definition not_single_row :: js_error where
  "not_single_row =
     \<lparr>message = Some ''JSON object requested, multiple (or no) rows returned'',
      code = Some ''PGRST116'', status = None, instanceof_Error = True\<rparr>"

definition failed :: "js_error \<Rightarrow> 'a response" where
  "failed e = \<lparr>data = None, error = Some e\<rparr>"

definition succeeded :: "'a \<Rightarrow> 'a response" where
  "succeeded x = \<lparr>data = Some x, error = None\<rparr>"

subsection \<open>getCurrentUserId\<close>

definition getCurrentUserId :: "backend \<Rightarrow> js_error + string" where
  "getCurrentUserId b =
     (case (auth_error (auth_getUser b), user (auth_getUser b)) of
        (Some _, _) \<Rightarrow> Inl (Error ''User not authenticated'')
      | (None, None) \<Rightarrow> Inl (Error ''User not authenticated'')
      | (None, Some uid) \<Rightarrow> Inr uid)"

subsection \<open>getTasks\<close>

text \<open>
  \<open>from('tasks').select('*').eq('completed', false).order('date', asc).order('created_at', asc)\<close>
  on the rows the caller may read.
\<close>

definition db_select_incomplete :: "backend \<Rightarrow> task list response" where
  "db_select_incomplete b =
     (case outage b of
        Some e \<Rightarrow> failed e
      | None \<Rightarrow>
          succeeded (sort_key (\<lambda>t. (date t, created_at t))
            (filter (\<lambda>t. \<not> completed t) (filter (rls_visible b) (tasks_table b)))))"

definition getTasks :: "backend \<Rightarrow> js_error + task list" where
  "getTasks b =
     (let r = db_select_incomplete b in
      case error r of
        Some e \<Rightarrow> Inl e
      | None \<Rightarrow> Inr (case data r of None \<Rightarrow> [] | Some rows \<Rightarrow> rows))"

subsection \<open>createTask\<close>

text \<open>The argument of \<open>createTask\<close> and the object it inserts.\<close>

record new_task =
  new_title :: string
  new_description :: "string option"
  new_priority :: priority
  new_date :: string

record insert_data =
  ins_title :: string
  ins_description :: "string option"
  ins_priority :: priority
  ins_date :: string
  ins_completed :: bool
  ins_user_id :: string

text \<open>
  \<open>from('tasks').insert([insertData]).select().single()\<close>. The row gets the id that
  \<open>gen_random_uuid()\<close> draws for it (the argument \<open>uuid\<close>), \<open>completed_at\<close> null and
  both timestamps \<open>NOW()\<close>, the column defaults of the migration. The insert policy
  \<open>WITH CHECK (auth.uid() = user_id)\<close> and the primary key reject the row otherwise.
\<close>

definition db_insert :: "backend \<Rightarrow> string \<Rightarrow> insert_data \<Rightarrow> backend \<times> task response" where
  "db_insert b uuid ins =
     (case outage b of
        Some e \<Rightarrow> (b, failed e)
      | None \<Rightarrow>
          if session_user b \<noteq> Some (ins_user_id ins) then (b, failed rls_violation)
          else if uuid \<in> set (map task_id (tasks_table b)) then (b, failed unique_violation)
          else
            let row = \<lparr>task_id = uuid, user_id = ins_user_id ins, title = ins_title ins,
                        description = ins_description ins, priority = ins_priority ins,
                        date = ins_date ins, completed = ins_completed ins,
                        completed_at = None, created_at = server_now b,
                        updated_at = server_now b\<rparr>
            in (b\<lparr>tasks_table := tasks_table b @ [row]\<rparr>, succeeded row))"

text \<open>
  A possibly undefined string is falsy when undefined or empty; \<open>x || fallback\<close>
  is the fallback then.
\<close>

definition falsy :: "string option \<Rightarrow> bool" where
  "falsy v = (v = None \<or> v = Some [])"

definition or_else :: "string option \<Rightarrow> string \<Rightarrow> string" where
  "or_else v fallback =
     (case v of None \<Rightarrow> fallback | Some s \<Rightarrow> if s = [] then fallback else s)"

definition createTask :: "backend \<Rightarrow> string \<Rightarrow> new_task \<Rightarrow> backend \<times> (js_error + task)" where
  "createTask b uuid t =
     (case getCurrentUserId b of
        Inl e \<Rightarrow> (b, Inl e)
      | Inr userId \<Rightarrow>
          (let insertData =
                \<lparr>ins_title = new_title t,
                 ins_description =
                   (if falsy (new_description t) then None else new_description t),
                 ins_priority = new_priority t, ins_date = new_date t,
                 ins_completed = False, ins_user_id = userId\<rparr>;
              (b', r) = db_insert b uuid insertData
           in (case error r of
                 Some e \<Rightarrow>
                   (b', Inl (Error (''Failed to create task: '' @ interpolate (message e) @
                                     '' (Code: '' @ or_else (code e) ''unknown'' @ '')'')))
               | None \<Rightarrow>
                   (case data r of
                      None \<Rightarrow>
                        (b', Inl (Error ''Task creation succeeded but no data was returned''))
                    | Some row \<Rightarrow> (b', Inr row)))))"

subsection \<open>updateTask\<close>

text \<open>
  The partial \<open>updates\<close> argument: a key that is absent or \<open>undefined\<close> is \<open>None\<close>
  (JSON serialisation drops it). \<open>updateData\<close> extends it with \<open>updated_at\<close> and, when
  the code assigns it, \<open>completed_at\<close>: \<open>None\<close> is the key left out, \<open>Some None\<close> is
  \<open>null\<close>.
\<close>

record updates =
  upd_title :: "string option"
  upd_description :: "string option"
  upd_priority :: "priority option"
  upd_date :: "string option"
  upd_completed :: "bool option"

record update_data = updates +
  upd_updated_at :: timestamp
  upd_completed_at :: "timestamp option option"

text \<open>
  The two clock readings \<open>new Date()\<close> of \<open>updateTask\<close> are its arguments \<open>t1\<close>
  (for \<open>updated_at\<close>) and \<open>t2\<close> (for \<open>completed_at\<close>).
\<close>

definition updateData_of :: "timestamp \<Rightarrow> timestamp \<Rightarrow> updates \<Rightarrow> update_data" where
  "updateData_of t1 t2 u =
     (let updateData = updates.extend u
            (update_data.fields t1 None)
      in if upd_completed u = Some True then updateData\<lparr>upd_completed_at := Some (Some t2)\<rparr>
         else if upd_completed u = Some False then updateData\<lparr>upd_completed_at := Some None\<rparr>
         else updateData)"

text \<open>A row after \<open>UPDATE tasks SET ...\<close> with the keys present in the patch.\<close>

definition apply_patch :: "update_data \<Rightarrow> task \<Rightarrow> task" where
  "apply_patch p t =
     t\<lparr>title := (case upd_title p of None \<Rightarrow> title t | Some x \<Rightarrow> x),
       description := (case upd_description p of None \<Rightarrow> description t | Some x \<Rightarrow> Some x),
       priority := (case upd_priority p of None \<Rightarrow> priority t | Some x \<Rightarrow> x),
       date := (case upd_date p of None \<Rightarrow> date t | Some x \<Rightarrow> x),
       completed := (case upd_completed p of None \<Rightarrow> completed t | Some x \<Rightarrow> x),
       completed_at := (case upd_completed_at p of None \<Rightarrow> completed_at t | Some x \<Rightarrow> x),
       updated_at := upd_updated_at p\<rparr>"

text \<open>
  The trigger \<open>update_db_updated_at\<close>: \<open>BEFORE UPDATE ... NEW.updated_at = NOW()\<close>.
\<close>

definition update_updated_at_column :: "backend \<Rightarrow> task \<Rightarrow> task" where
  "update_updated_at_column b t = t\<lparr>updated_at := server_now b\<rparr>"

text \<open>
  \<open>from('tasks').update(updateData).eq('id', id).select().single()\<close>: the rows with
  this id that the caller may update are patched; anything but exactly one such row is the
  error of \<open>.single()\<close> and changes nothing.
\<close>

definition db_update :: "backend \<Rightarrow> update_data \<Rightarrow> string \<Rightarrow> backend \<times> task response" where
  "db_update b p i =
     (case outage b of
        Some e \<Rightarrow> (b, failed e)
      | None \<Rightarrow>
          (let hit = (\<lambda>t. task_id t = i \<and> rls_visible b t);
               new_row = (\<lambda>t. update_updated_at_column b (apply_patch p t))
           in (case filter hit (tasks_table b) of
                 [t] \<Rightarrow>
                   (b\<lparr>tasks_table :=
                        map (\<lambda>r. if hit r then new_row r else r) (tasks_table b)\<rparr>,
                    succeeded (new_row t))
               | _ \<Rightarrow> (b, failed not_single_row))))"

definition updateTask ::
  "backend \<Rightarrow> timestamp \<Rightarrow> timestamp \<Rightarrow> string \<Rightarrow> updates \<Rightarrow> backend \<times> (js_error + task)" where
  "updateTask b t1 t2 i u =
     (let updateData = updateData_of t1 t2 u;
          (b', r) = db_update b updateData i
      in case error r of
           Some e \<Rightarrow>
             (b', Inl (Error (''Failed to update task: '' @ interpolate (message e) @
                               '' (Code: '' @ interpolate (code e) @ '')'')))
         | None \<Rightarrow>
             (case data r of
                None \<Rightarrow> (b', Inl (Error ''Task update succeeded but no data was returned''))
              | Some row \<Rightarrow> (b', Inr row)))"

subsection \<open>deleteTask\<close>

definition db_delete :: "backend \<Rightarrow> string \<Rightarrow> backend \<times> js_error option" where
  "db_delete b i =
     (case outage b of
        Some e \<Rightarrow> (b, Some e)
      | None \<Rightarrow>
          (b\<lparr>tasks_table :=
                filter (\<lambda>t. \<not> (task_id t = i \<and> rls_visible b t)) (tasks_table b)\<rparr>, None))"

definition deleteTask :: "backend \<Rightarrow> string \<Rightarrow> backend \<times> (js_error + unit)" where
  "deleteTask b i =
     (let (b', err) = db_delete b i
      in case err of
           Some e \<Rightarrow>
             (b', Inl (Error (''Failed to delete task: '' @ interpolate (message e) @
                               '' (Code: '' @ interpolate (code e) @ '')'')))
         | None \<Rightarrow> (b', Inr ()))"

subsection \<open>Sequences of operations\<close>

text \<open>
  What can happen to the backend between two observations: a call of one of the three
  mutating operations of the task store (its result dropped), a change of session, an outage
  beginning or ending, the clock moving.
\<close>

datatype event =
    Create string new_task
  | Update timestamp timestamp string updates
  | Delete string
  | Session "string option" "js_error option"
  | Outage "js_error option"
  | Clock timestamp

fun apply_event :: "backend \<Rightarrow> event \<Rightarrow> backend" where
  "apply_event b (Create uuid t) = fst (createTask b uuid t)"
| "apply_event b (Update t1 t2 i u) = fst (updateTask b t1 t2 i u)"
| "apply_event b (Delete i) = fst (deleteTask b i)"
| "apply_event b (Session u e) = b\<lparr>session_user := u, getUser_error := e\<rparr>"
| "apply_event b (Outage e) = b\<lparr>outage := e\<rparr>"
| "apply_event b (Clock n) = b\<lparr>server_now := n\<rparr>"

definition run :: "backend \<Rightarrow> event list \<Rightarrow> backend" where
  "run b evs = foldl apply_event b evs"

text \<open>A backend whose table \<open>tasks\<close> is still empty.\<close>

definition fresh_backend :: "string option \<Rightarrow> timestamp \<Rightarrow> backend" where
  "fresh_backend u n =
     \<lparr>session_user = u, getUser_error = None, outage = None, tasks_table = [], server_now = n\<rparr>"

section \<open>View-state controller: toggleTask\<close>

text \<open>The UI \<open>Task\<close> type of the page and the conversion from a row.\<close>

record ui_task =
  ui_id :: string
  ui_title :: string
  ui_description :: "string option"
  badge :: priority
  ui_date :: string
  ui_completed :: "bool option"
  completedAt :: "timestamp option"

definition dbTaskToUITask :: "task \<Rightarrow> ui_task" where
  "dbTaskToUITask dbTask =
     \<lparr>ui_id = task_id dbTask, ui_title = title dbTask,
      ui_description = (if falsy (description dbTask) then None else description dbTask),
      badge = priority dbTask, ui_date = date dbTask,
      ui_completed = Some (completed dbTask), completedAt = completed_at dbTask\<rparr>"

text \<open>
  The React state \<open>toggleTask\<close> reads and writes, and its two effects outside that
  state: the texts passed to \<open>alert\<close>, in order, and the ids whose removal
  \<open>setTimeout(..., 1000)\<close> has scheduled.
\<close>

record app_state =
  tasks :: "ui_task list"
  animatingTasks :: "string set"
  completedTasksHistory :: "ui_task list"
  alerts :: "string list"
  timeouts :: "string list"

definition only_completed :: "bool \<Rightarrow> updates" where
  "only_completed c =
     \<lparr>upd_title = None, upd_description = None, upd_priority = None, upd_date = None,
      upd_completed = Some c\<rparr>"

definition toggle_alert :: "js_error \<Rightarrow> string" where
  "toggle_alert e =
     ''Failed to update task: '' @
     (if instanceof_Error e then interpolate (message e) else ''Unknown error'') @
     ''. Check console for details.''"

definition toggleTask ::
  "app_state \<Rightarrow> backend \<Rightarrow> timestamp \<Rightarrow> timestamp \<Rightarrow> string \<Rightarrow> app_state \<times> backend" where
  "toggleTask st b t1 t2 i =
     (case find (\<lambda>t. ui_id t = i) (tasks st) of
        None \<Rightarrow> (st, b)
      | Some task \<Rightarrow>
          (let newCompletedStatus = (ui_completed task \<noteq> Some True);
               (b', r) = updateTask b t1 t2 i (only_completed newCompletedStatus)
           in (case r of
                 Inl e \<Rightarrow> (st\<lparr>alerts := alerts st @ [toggle_alert e]\<rparr>, b')
               | Inr updatedDBTask \<Rightarrow>
                   (let updatedTask = dbTaskToUITask updatedDBTask
                    in if newCompletedStatus then
                         (st\<lparr>tasks := map (\<lambda>t. if ui_id t = i then updatedTask else t) (tasks st),
                             animatingTasks := insert i (animatingTasks st),
                             completedTasksHistory := completedTasksHistory st @ [updatedTask],
                             timeouts := timeouts st @ [i]\<rparr>, b')
                       else
                         (st\<lparr>tasks := map (\<lambda>t. if ui_id t = i then updatedTask else t) (tasks st),
                             completedTasksHistory :=
                               filter (\<lambda>t. ui_id t \<noteq> i) (completedTasksHistory st)\<rparr>, b')))))"

section \<open>AI assistant bridge: POST /api/ai\<close>

text \<open>
  A parsed JSON body. Characters are code units below 256; among them
  \<open>String.prototype.trim\<close> removes tab, line feed, vertical tab, form feed, carriage
  return, space and no-break space.
\<close>

datatype json =
    JNull
  | JBool bool
  | JNumber int
  | JString string
  | JArray "json list"
  | JObject "(string \<times> json) list"














section \<open>Properties and scenarios used below\<close>

text \<open>The data-model invariant: a completion timestamp is there exactly on a completed row.\<close>

definition completion_consistent :: "task \<Rightarrow> bool" where
  "completion_consistent t = ((completed_at t \<noteq> None) = completed t)"

text \<open>Two error objects of the auth provider and one of PostgREST.\<close>

definition session_missing :: js_error where
  "session_missing =
     \<lparr>message = Some ''Auth session missing!'', code = None, status = Some 400,
      instanceof_Error = True\<rparr>"

definition fetch_failed :: js_error where
  "fetch_failed =
     \<lparr>message = Some ''Failed to fetch'', code = None, status = None, instanceof_Error = True\<rparr>"






text \<open>A visitor without a session.\<close>

definition profile_backend_signed_out :: profile_backend where
  "profile_backend_signed_out =
     \<lparr>getUser_call = Inr \<lparr>user = None, auth_error = Some session_missing\<rparr>,
      profiles_query = (\<lambda>uid. Inr (failed not_single_row))\<rparr>"

text \<open>
  User \<open>u1\<close> creates task A for 2 January 2024, then B and C, in this order, for
  1 January 2024.
\<close>

definition task_for :: "string \<Rightarrow> string \<Rightarrow> new_task" where
  "task_for name day =
     \<lparr>new_title = name, new_description = None, new_priority = Medium, new_date = day\<rparr>"

definition three_tasks :: "event list" where
  "three_tasks =
     [Create ''a'' (task_for ''A'' ''2024-01-02''), Clock 11,
      Create ''b'' (task_for ''B'' ''2024-01-01''), Clock 12,
      Create ''c'' (task_for ''C'' ''2024-01-01'')]"

definition three_tasks_backend :: backend where
  "three_tasks_backend = run (fresh_backend (Some ''u1'') 10) three_tasks"

text \<open>A backend that no user is signed in to.\<close>

definition signed_out_backend :: backend where
  "signed_out_backend = (fresh_backend None 10)\<lparr>getUser_error := Some session_missing\<rparr>"

text \<open>An update that carries a new title and nothing else.\<close>

definition title_only :: "string \<Rightarrow> updates" where
  "title_only name =
     \<lparr>upd_title = Some name, upd_description = None, upd_priority = None, upd_date = None,
      upd_completed = None\<rparr>"

text \<open>The stored row with a given id.\<close>

definition stored :: "backend \<Rightarrow> string \<Rightarrow> task option" where
  "stored b i = find (\<lambda>t. task_id t = i) (tasks_table b)"

text \<open>
  Task B as stored after its creation, the backend after B has been completed at instant
  21, and B as returned when it is reopened after that.
\<close>

definition b_row :: task where
  "b_row =
     \<lparr>task_id = ''b'', user_id = ''u1'', title = ''B'', description = None, priority = Medium,
      date = ''2024-01-01'', completed = False, completed_at = None, created_at = 11,
      updated_at = 11\<rparr>"

definition b_completed_backend :: backend where
  "b_completed_backend = fst (updateTask three_tasks_backend 20 21 ''b'' (only_completed True))"

definition b_reopened_row :: task where
  "b_reopened_row =
     \<lparr>task_id = ''b'', user_id = ''u1'', title = ''B'', description = None, priority = Medium,
      date = ''2024-01-01'', completed = False, completed_at = None, created_at = 11,
      updated_at = 12\<rparr>"

text \<open>
  The page showing the three tasks while the backend cannot be reached, and the error
  updateTask throws then.
\<close>

definition outage_backend :: backend where
  "outage_backend = three_tasks_backend\<lparr>outage := Some fetch_failed\<rparr>"

definition three_tasks_view :: app_state where
  "three_tasks_view =
     \<lparr>tasks = map dbTaskToUITask (case getTasks three_tasks_backend of Inl e \<Rightarrow> [] | Inr rows \<Rightarrow> rows),
      animatingTasks = {}, completedTasksHistory = [], alerts = [], timeouts = []\<rparr>"

definition outage_error :: js_error where
  "outage_error = Error ''Failed to update task: Failed to fetch (Code: undefined)''"




section \<open>Task store: the outcomes of a call\<close>

lemma updateData_of_sel:
  "upd_title (updateData_of t1 t2 u) = upd_title u"
  "upd_description (updateData_of t1 t2 u) = upd_description u"
  "upd_priority (updateData_of t1 t2 u) = upd_priority u"
  "upd_date (updateData_of t1 t2 u) = upd_date u"
  "upd_completed (updateData_of t1 t2 u) = upd_completed u"
  "upd_updated_at (updateData_of t1 t2 u) = t1"
  "upd_completed_at (updateData_of t1 t2 u) =
     (case upd_completed u of None \<Rightarrow> None | Some True \<Rightarrow> Some (Some t2) | Some False \<Rightarrow> Some None)"
  by (cases u; simp add: updateData_of_def updates.defs update_data.defs Let_def split: option.splits bool.splits)+

lemma new_row_completed_at:
  "completed_at (update_updated_at_column b (apply_patch (updateData_of t1 t2 u) t)) =
     (case upd_completed u of None \<Rightarrow> completed_at t | Some True \<Rightarrow> Some t2 | Some False \<Rightarrow> None)"
  by (simp add: update_updated_at_column_def apply_patch_def updateData_of_sel split: option.splits bool.splits)

lemma new_row_completed:
  "completed (update_updated_at_column b (apply_patch (updateData_of t1 t2 u) t)) =
     (case upd_completed u of None \<Rightarrow> completed t | Some c \<Rightarrow> c)"
  by (simp add: update_updated_at_column_def apply_patch_def updateData_of_sel split: option.splits)

lemma new_row_consistent:
  "completion_consistent t \<Longrightarrow>
   completion_consistent (update_updated_at_column b (apply_patch (updateData_of t1 t2 u) t))"
  unfolding completion_consistent_def new_row_completed_at new_row_completed
  by (simp split: option.splits bool.splits)

lemma db_update_outcome:
  "(\<exists>e. db_update b p i = (b, failed e)) \<or>
   (\<exists>t. filter (\<lambda>t. task_id t = i \<and> rls_visible b t) (tasks_table b) = [t] \<and>
      outage b = None \<and>
      db_update b p i =
         (b\<lparr>tasks_table := map (\<lambda>r. if task_id r = i \<and> rls_visible b r
                  then update_updated_at_column b (apply_patch p r) else r) (tasks_table b)\<rparr>,
          succeeded (update_updated_at_column b (apply_patch p t))))"
  unfolding db_update_def Let_def
  by (cases "outage b"; cases "filter (\<lambda>t. task_id t = i \<and> rls_visible b t) (tasks_table b)";
      simp split: list.splits; blast)

lemma updateTask_outcome:
  "(\<exists>e. updateTask b t1 t2 i u = (b, Inl e)) \<or>
   (\<exists>t. filter (\<lambda>t. task_id t = i \<and> rls_visible b t) (tasks_table b) = [t] \<and>
      outage b = None \<and>
      updateTask b t1 t2 i u =
         (b\<lparr>tasks_table := map (\<lambda>r. if task_id r = i \<and> rls_visible b r
                  then update_updated_at_column b (apply_patch (updateData_of t1 t2 u) r) else r)
                (tasks_table b)\<rparr>,
          Inr (update_updated_at_column b (apply_patch (updateData_of t1 t2 u) t))))"
  using db_update_outcome [of b "updateData_of t1 t2 u" i]
  by (auto simp: updateTask_def failed_def succeeded_def)

lemma createTask_outcome:
  "(\<exists>e. createTask b uuid t = (b, Inl e)) \<or>
   (\<exists>uid. session_user b = Some uid \<and> getUser_error b = None \<and> outage b = None \<and>
      uuid \<notin> set (map task_id (tasks_table b)) \<and>
      createTask b uuid t =
        (b\<lparr>tasks_table := tasks_table b @
             [\<lparr>task_id = uuid, user_id = uid, title = new_title t,
               description = (if falsy (new_description t) then None else new_description t),
               priority = new_priority t, date = new_date t, completed = False,
               completed_at = None, created_at = server_now b, updated_at = server_now b\<rparr>]\<rparr>,
         Inr \<lparr>task_id = uuid, user_id = uid, title = new_title t,
               description = (if falsy (new_description t) then None else new_description t),
               priority = new_priority t, date = new_date t, completed = False,
               completed_at = None, created_at = server_now b, updated_at = server_now b\<rparr>))"
  by (auto simp: createTask_def getCurrentUserId_def auth_getUser_def db_insert_def Let_def
      failed_def succeeded_def split: option.splits)

lemma deleteTask_table:
  "set (tasks_table (fst (deleteTask b i))) \<subseteq> set (tasks_table b)"
  by (auto simp: deleteTask_def db_delete_def split: option.splits)

lemma createTask_preserves:
  assumes "\<forall>r\<in>set (tasks_table b). completion_consistent r"
  shows "\<forall>r\<in>set (tasks_table (fst (createTask b uuid t))). completion_consistent r"
  using assms createTask_outcome [of b uuid t] by (auto simp: completion_consistent_def)

lemma updateTask_preserves:
  assumes "\<forall>r\<in>set (tasks_table b). completion_consistent r"
  shows "\<forall>r\<in>set (tasks_table (fst (updateTask b t1 t2 i u))). completion_consistent r"
  using assms updateTask_outcome [of b t1 t2 i u] by (auto simp: new_row_consistent)

lemma apply_event_preserves:
  assumes "\<forall>r\<in>set (tasks_table b). completion_consistent r"
  shows "\<forall>r\<in>set (tasks_table (apply_event b ev)). completion_consistent r"
proof (cases ev)
  case (Create uuid t)
  then show ?thesis using createTask_preserves [OF assms] by simp
next
  case (Update t1 t2 i u)
  then show ?thesis using updateTask_preserves [OF assms] by simp
next
  case (Delete i)
  then show ?thesis using assms deleteTask_table [of b i] by auto
qed (use assms in simp_all)

lemma run_preserves:
  "\<forall>r\<in>set (tasks_table b). completion_consistent r \<Longrightarrow>
   \<forall>r\<in>set (tasks_table (run b evs)). completion_consistent r"
  unfolding run_def
proof (induction evs arbitrary: b)
  case Nil
  then show ?case by simp
next
  case (Cons ev evs)
  show ?case using Cons.IH [OF apply_event_preserves [OF Cons.prems]] by simp
qed

lemma createTask_row_consistent:
  "snd (createTask b uuid t) = Inr row \<Longrightarrow> completion_consistent row"
  using createTask_outcome [of b uuid t] by (auto simp: completion_consistent_def)

lemma updateTask_row_consistent:
  assumes "\<forall>r\<in>set (tasks_table b). completion_consistent r"
    and "snd (updateTask b t1 t2 i u) = Inr row"
  shows "completion_consistent row"
proof -
  from assms(2) updateTask_outcome [of b t1 t2 i u]
  obtain r where r: "filter (\<lambda>t. task_id t = i \<and> rls_visible b t) (tasks_table b) = [r]"
    and row: "row = update_updated_at_column b (apply_patch (updateData_of t1 t2 u) r)"
    by auto
  from r have "r \<in> set (filter (\<lambda>t. task_id t = i \<and> rls_visible b t) (tasks_table b))"
    by simp
  then have "completion_consistent r" using assms(1) by simp
  then show ?thesis unfolding row by (rule new_row_consistent)
qed

section \<open>Task store: completion flag and completion timestamp\<close>

text \<open>
  C1. Starting from a table whose rows all have \<open>completed_at\<close> non-null exactly when
  \<open>completed\<close> is true (an empty table, for one), after any sequence of createTask,
  updateTask and deleteTask calls, changes of session, outages and clock ticks, every
  stored row still has \<open>completed_at\<close> non-null if and only if \<open>completed\<close> is true,
  and so has the row that a further createTask or updateTask call returns.
\<close>

theorem completed_at_iff_completed:
  assumes "\<forall>r\<in>set (tasks_table b0). (completed_at r \<noteq> None) = completed r"
    and "b = run b0 evs"
  shows "(\<forall>r\<in>set (tasks_table b). (completed_at r \<noteq> None) = completed r) \<and>
         (\<forall>row. snd (createTask b uuid t) = Inr row \<longrightarrow>
            (completed_at row \<noteq> None) = completed row) \<and>
         (\<forall>row. snd (updateTask b t1 t2 i u) = Inr row \<longrightarrow>
            (completed_at row \<noteq> None) = completed row)"
proof -
  have inv: "\<forall>r\<in>set (tasks_table b). completion_consistent r"
    using assms run_preserves [of b0 evs] by (simp add: completion_consistent_def)
  show ?thesis
    using inv createTask_row_consistent [of b uuid t]
      updateTask_row_consistent [OF inv, of t1 t2 i u]
    by (simp add: completion_consistent_def)
qed

theorem completed_at_iff_completed_witness:
  "list_all (\<lambda>r. (completed_at r \<noteq> None) = completed r) (tasks_table three_tasks_backend) \<and>
   length (tasks_table three_tasks_backend) = 3 \<and>
   map_sum id (\<lambda>row. (completed row, completed_at row))
     (snd (updateTask three_tasks_backend 20 21 ''b'' (only_completed True))) =
     Inr (True, Some 21)"
proof -
  have h: "\<forall>r\<in>set (tasks_table (fresh_backend (Some ''u1'') 10)).
      (completed_at r \<noteq> None) = completed r"
    by (simp add: fresh_backend_def)
  have b: "three_tasks_backend = run (fresh_backend (Some ''u1'') 10) three_tasks"
    by (simp add: three_tasks_backend_def)
  have "\<forall>r\<in>set (tasks_table three_tasks_backend). (completed_at r \<noteq> None) = completed r"
    using completed_at_iff_completed [OF h b, of "''x''" "task_for ''X'' ''2024-01-03''"
        20 21 "''b''" "only_completed True"]
    by blast
  then have stored: "list_all (\<lambda>r. (completed_at r \<noteq> None) = completed r)
      (tasks_table three_tasks_backend)"
    by (simp add: list_all_iff)
  have len: "length (tasks_table three_tasks_backend) = 3"
    by code_simp
  have upd: "map_sum id (\<lambda>row. (completed row, completed_at row))
     (snd (updateTask three_tasks_backend 20 21 ''b'' (only_completed True))) =
     Inr (True, Some 21)"
    by code_simp
  show ?thesis using stored len upd by simp
qed

section \<open>Session accessor and profile store\<close>

lemma session_missing_invalid: "session_already_invalid session_missing"
  by (simp add: session_already_invalid_def message_includes_def session_missing_def)

lemma fetch_failed_not_invalid: "\<not> session_already_invalid fetch_failed"
  by (simp add: session_already_invalid_def message_includes_def fetch_failed_def)

text \<open>
  C8. signOut resolves without throwing when the backend reports no error, and when the
  error it reports (returned in the result or thrown by the call) is a
  session-already-invalid condition: a message containing "session", "Session" or "403",
  or status 403. For every other error it throws that error.
\<close>

theorem signOut_invalid_session:
  "signOut (Inr None) = Inr () \<and>
   (call = Inr (Some e) \<or> call = Inl e \<longrightarrow>
      signOut call = (if session_already_invalid e then Inr () else Inl e))"
  by (auto simp: signOut_def signOut_try_def)

theorem signOut_invalid_session_witness:
  "signOut (Inr (Some session_missing)) = Inr () \<and>
   signOut (Inl fetch_failed) = Inl fetch_failed"
  using signOut_invalid_session [of "Inr (Some session_missing)" session_missing]
    signOut_invalid_session [of "Inl fetch_failed" fetch_failed]
  by (simp only: session_missing_invalid fetch_failed_not_invalid if_True if_False simp_thms)







lemma getProfile_signed_out:
  "getProfile profile_backend_signed_out = Inl (Error ''User not authenticated'')"
  by (simp add: getProfile_def getProfile_try_def profile_backend_signed_out_def
      message_includes_def Error_def)

text \<open>
  C10. hasProfile never throws: whatever getProfile does, hasProfile returns a boolean;
  it is false whenever getProfile throws (no session, a backend failure) and whenever
  getProfile returns absent, and true when getProfile returns a profile.
\<close>

theorem hasProfile_never_throws:
  "(\<exists>r. hasProfile b = Inr r) \<and>
   (\<forall>e. getProfile b = Inl e \<longrightarrow> hasProfile b = Inr False) \<and>
   (getProfile b = Inr None \<longrightarrow> hasProfile b = Inr False) \<and>
   (\<forall>p. getProfile b = Inr (Some p) \<longrightarrow> hasProfile b = Inr True)"
  by (auto simp: hasProfile_def split: sum.splits)

theorem hasProfile_never_throws_witness:
  "getProfile profile_backend_signed_out = Inl (Error ''User not authenticated'') \<and>
   hasProfile profile_backend_signed_out = Inr False"
  using hasProfile_never_throws [of profile_backend_signed_out] getProfile_signed_out
  by blast

section \<open>Task store: listing the incomplete tasks\<close>

lemma getTasks_ok:
  "outage b = None \<Longrightarrow>
   getTasks b = Inr (sort_key (\<lambda>t. (date t, created_at t))
     (filter (\<lambda>t. \<not> completed t) (filter (rls_visible b) (tasks_table b))))"
  by (simp add: getTasks_def db_select_incomplete_def succeeded_def)

lemma sorted_by_date_then_creation:
  "sorted (map (\<lambda>t. (date t, created_at t)) rows) \<Longrightarrow>
   sorted_wrt (\<lambda>s t. date s < date t \<or> (date s = date t \<and> created_at s \<le> created_at t)) rows"
  unfolding sorted_map
  by (erule sorted_wrt_mono_rel [rotated]) (auto simp: less_eq_prod_def)

text \<open>
  C2. Whatever the state of the backend (so after any sequence of create, update and delete
  operations), when the request is answered getTasks returns exactly the rows the caller
  may read that have \<open>completed = false\<close>, each as often as it is stored and none
  with \<open>completed = true\<close>, sorted by date ascending and, within a date, by creation
  time ascending. For tasks A (2024-01-02), B (2024-01-01) and C (2024-01-01, created after
  B) it yields B, C, A.
\<close>

theorem getTasks_incomplete_sorted:
  assumes "outage b = None"
  shows "\<exists>rows. getTasks b = Inr rows \<and>
           mset rows = mset (filter (\<lambda>t. \<not> completed t \<and> rls_visible b t) (tasks_table b)) \<and>
           (\<forall>t\<in>set rows. \<not> completed t) \<and>
           sorted_wrt (\<lambda>s t. date s < date t \<or>
                              (date s = date t \<and> created_at s \<le> created_at t)) rows"
proof -
  let ?rows = "sort_key (\<lambda>t. (date t, created_at t))
     (filter (\<lambda>t. \<not> completed t) (filter (rls_visible b) (tasks_table b)))"
  have "getTasks b = Inr ?rows" using assms by (rule getTasks_ok)
  moreover have "mset ?rows =
      mset (filter (\<lambda>t. \<not> completed t \<and> rls_visible b t) (tasks_table b))"
    by (simp add: conj_commute)
  moreover have "\<forall>t\<in>set ?rows. \<not> completed t" by simp
  moreover have "sorted_wrt (\<lambda>s t. date s < date t \<or>
                              (date s = date t \<and> created_at s \<le> created_at t)) ?rows"
    by (rule sorted_by_date_then_creation) (rule sorted_sort_key)
  ultimately show ?thesis by blast
qed

theorem getTasks_incomplete_sorted_witness:
  "outage three_tasks_backend = None \<and>
   map_sum id (map title) (getTasks three_tasks_backend) = Inr [''B'', ''C'', ''A''] \<and>
   map_sum id (map title) (getTasks b_completed_backend) = Inr [''C'', ''A''] \<and>
   (case getTasks three_tasks_backend of
      Inl e \<Rightarrow> False
    | Inr rows \<Rightarrow> list_all (\<lambda>t. \<not> completed t) rows)"
proof -
  have h: "outage three_tasks_backend = None" by code_simp
  have e: "map_sum id (map title) (getTasks three_tasks_backend) = Inr [''B'', ''C'', ''A'']"
    "map_sum id (map title) (getTasks b_completed_backend) = Inr [''C'', ''A'']"
    by code_simp+
  from getTasks_incomplete_sorted [OF h]
  have "case getTasks three_tasks_backend of
      Inl e \<Rightarrow> False
    | Inr rows \<Rightarrow> list_all (\<lambda>t. \<not> completed t) rows"
    by (auto simp: list_all_iff)
  with h e show ?thesis by simp
qed

section \<open>Task store: creating a task\<close>

text \<open>
  C5. Without a current session (no user, or an error from the auth provider) createTask
  fails with the error "User not authenticated" and leaves the backend as it was. When it
  succeeds, the created row carries the id of the session's user as \<open>user_id\<close>, has
  \<open>completed = false\<close> and no completion timestamp, and is the one row added to the
  table.
\<close>

theorem createTask_session:
  "(session_user b = None \<or> getUser_error b \<noteq> None \<longrightarrow>
      createTask b uuid t = (b, Inl (Error ''User not authenticated''))) \<and>
   (\<forall>b' row. createTask b uuid t = (b', Inr row) \<longrightarrow>
      session_user b = Some (user_id row) \<and> getUser_error b = None \<and>
      \<not> completed row \<and> completed_at row = None \<and>
      tasks_table b' = tasks_table b @ [row])"
proof -
  have "createTask b uuid t = (b, Inl (Error ''User not authenticated''))"
    if "session_user b = None \<or> getUser_error b \<noteq> None"
    using that
    by (auto simp: createTask_def getCurrentUserId_def auth_getUser_def split: option.splits)
  moreover have "session_user b = Some (user_id row) \<and> getUser_error b = None \<and>
      \<not> completed row \<and> completed_at row = None \<and>
      tasks_table b' = tasks_table b @ [row]"
    if "createTask b uuid t = (b', Inr row)" for b' row
    using that createTask_outcome [of b uuid t] by auto
  ultimately show ?thesis by blast
qed

theorem createTask_session_witness:
  "createTask signed_out_backend ''a'' (task_for ''A'' ''2024-01-02'') =
     (signed_out_backend, Inl (Error ''User not authenticated'')) \<and>
   map_sum id (\<lambda>row. (user_id row, completed row))
     (snd (createTask (fresh_backend (Some ''u1'') 10) ''a'' (task_for ''A'' ''2024-01-02''))) =
     Inr (''u1'', False)"
proof -
  have "session_user signed_out_backend = None"
    by (simp add: signed_out_backend_def fresh_backend_def)
  then have 1: "createTask signed_out_backend ''a'' (task_for ''A'' ''2024-01-02'') =
     (signed_out_backend, Inl (Error ''User not authenticated''))"
    using createTask_session [of signed_out_backend "''a''" "task_for ''A'' ''2024-01-02''"]
    by blast
  have 2: "map_sum id (\<lambda>row. (user_id row, completed row))
     (snd (createTask (fresh_backend (Some ''u1'') 10) ''a'' (task_for ''A'' ''2024-01-02''))) =
     Inr (''u1'', False)"
    by code_simp
  show ?thesis using 1 2 by simp
qed

section \<open>Task store: updating the completion flag\<close>

lemma updateTask_ok:
  assumes "filter (\<lambda>r. task_id r = i \<and> rls_visible b r) (tasks_table b) = [t]"
    and "outage b = None"
  shows "updateTask b t1 t2 i u =
         (b\<lparr>tasks_table := map (\<lambda>r. if task_id r = i \<and> rls_visible b r
                  then update_updated_at_column b (apply_patch (updateData_of t1 t2 u) r) else r)
                (tasks_table b)\<rparr>,
          Inr (update_updated_at_column b (apply_patch (updateData_of t1 t2 u) t)))"
  using assms by (simp add: updateTask_def db_update_def succeeded_def Let_def)

lemma filter_map_hit:
  "(\<And>r. P (f r) = P r) \<Longrightarrow>
   filter P (map (\<lambda>r. if P r then f r else r) xs) = map f (filter P xs)"
  by (induction xs) auto

lemma filter_map_miss:
  "(\<And>r. P (f r) = P r) \<Longrightarrow>
   filter (\<lambda>r. \<not> P r) (map (\<lambda>r. if P r then f r else r) xs) = filter (\<lambda>r. \<not> P r) xs"
  by (induction xs) auto

lemma new_row_key:
  "task_id (update_updated_at_column b (apply_patch p r)) = task_id r"
  "user_id (update_updated_at_column b (apply_patch p r)) = user_id r"
  by (simp_all add: update_updated_at_column_def apply_patch_def)

lemma updateTask_ok_hit:
  assumes "filter (\<lambda>r. task_id r = i \<and> rls_visible b r) (tasks_table b) = [t]"
    and "outage b = None"
    and "updateTask b t1 t2 i u = (b', res)"
  shows "filter (\<lambda>r. task_id r = i \<and> rls_visible (b'\<lparr>server_now := n\<rparr>) r)
           (tasks_table (b'\<lparr>server_now := n\<rparr>)) =
         [update_updated_at_column b (apply_patch (updateData_of t1 t2 u) t)]"
    and "outage (b'\<lparr>server_now := n\<rparr>) = None"
    and "res = Inr (update_updated_at_column b (apply_patch (updateData_of t1 t2 u) t))"
proof -
  let ?f = "\<lambda>r. update_updated_at_column b (apply_patch (updateData_of t1 t2 u) r)"
  let ?P = "\<lambda>r. task_id r = i \<and> rls_visible b r"
  have b': "b' = b\<lparr>tasks_table := map (\<lambda>r. if ?P r then ?f r else r) (tasks_table b)\<rparr>"
    and res: "res = Inr (?f t)"
    using updateTask_ok [OF assms(1,2), of t1 t2 u] assms(3) by simp_all
  have vis: "rls_visible (b'\<lparr>server_now := n\<rparr>) = rls_visible b"
    by (simp add: b' rls_visible_def fun_eq_iff)
  have "filter ?P (map (\<lambda>r. if ?P r then ?f r else r) (tasks_table b)) =
        map ?f (filter ?P (tasks_table b))"
    by (rule filter_map_hit) (simp add: new_row_key rls_visible_def)
  then show "filter (\<lambda>r. task_id r = i \<and> rls_visible (b'\<lparr>server_now := n\<rparr>) r)
           (tasks_table (b'\<lparr>server_now := n\<rparr>)) = [?f t]"
    unfolding vis using assms(1) by (simp add: b')
  show "outage (b'\<lparr>server_now := n\<rparr>) = None" using assms(2) by (simp add: b')
  show "res = Inr (?f t)" by (rule res)
qed

lemma b_row_hit:
  "filter (\<lambda>r. task_id r = ''b'' \<and> rls_visible three_tasks_backend r)
     (tasks_table three_tasks_backend) = [b_row]"
  by code_simp

text \<open>
  C4, as the code has it. When updateTask succeeds, it has found exactly one row with the
  given id that the caller may update. The \<open>completed_at\<close> of the row it returns is the
  current time if the update carries \<open>completed = true\<close> (whether or not the row was
  completed already), null if it carries \<open>completed = false\<close>, and the row's previous
  \<open>completed_at\<close> if the update does not carry \<open>completed\<close>; \<open>completed\<close> is the
  value carried, or unchanged. The returned row is what the table now stores under this id
  for the caller, and every other row of the table is as before.
\<close>

theorem updateTask_completed_at:
  assumes "updateTask b t1 t2 i u = (b', Inr row)"
  shows "\<exists>old. filter (\<lambda>r. task_id r = i \<and> rls_visible b r) (tasks_table b) = [old] \<and>
           completed_at row =
             (case upd_completed u of
                None \<Rightarrow> completed_at old
              | Some True \<Rightarrow> Some t2
              | Some False \<Rightarrow> None) \<and>
           completed row = (case upd_completed u of None \<Rightarrow> completed old | Some c \<Rightarrow> c) \<and>
           filter (\<lambda>r. task_id r = i \<and> rls_visible b' r) (tasks_table b') = [row] \<and>
           filter (\<lambda>r. \<not> (task_id r = i \<and> rls_visible b r)) (tasks_table b') =
             filter (\<lambda>r. \<not> (task_id r = i \<and> rls_visible b r)) (tasks_table b)"
proof -
  let ?P = "\<lambda>r. task_id r = i \<and> rls_visible b r"
  let ?f = "\<lambda>r. update_updated_at_column b (apply_patch (updateData_of t1 t2 u) r)"
  from assms updateTask_outcome [of b t1 t2 i u]
  obtain old where hit: "filter ?P (tasks_table b) = [old]"
    and out: "outage b = None"
    and b': "b' = b\<lparr>tasks_table := map (\<lambda>r. if ?P r then ?f r else r) (tasks_table b)\<rparr>"
    and row: "row = ?f old"
    by auto
  have same: "b'\<lparr>server_now := server_now b'\<rparr> = b'" by simp
  have stored: "filter (\<lambda>r. task_id r = i \<and> rls_visible b' r) (tasks_table b') = [row]"
    using updateTask_ok_hit(1) [OF hit out assms, of "server_now b'"]
    unfolding same row .
  have "filter (\<lambda>r. \<not> ?P r) (map (\<lambda>r. if ?P r then ?f r else r) (tasks_table b)) =
        filter (\<lambda>r. \<not> ?P r) (tasks_table b)"
    by (rule filter_map_miss) (simp add: new_row_key rls_visible_def)
  then have others: "filter (\<lambda>r. \<not> ?P r) (tasks_table b') = filter (\<lambda>r. \<not> ?P r) (tasks_table b)"
    by (simp add: b')
  have at: "completed_at row =
      (case upd_completed u of
         None \<Rightarrow> completed_at old
       | Some True \<Rightarrow> Some t2
       | Some False \<Rightarrow> None)"
    unfolding row by (rule new_row_completed_at)
  have c: "completed row = (case upd_completed u of None \<Rightarrow> completed old | Some c \<Rightarrow> c)"
    unfolding row by (rule new_row_completed)
  show ?thesis using hit at c stored others by blast
qed

theorem updateTask_completed_at_witness:
  "snd (updateTask b_completed_backend 30 31 ''b'' (only_completed False)) = Inr b_reopened_row \<and>
   map_option completed_at (stored b_completed_backend ''b'') = Some (Some 21) \<and>
   completed_at b_reopened_row = None \<and>
   map_option completed_at
     (stored (fst (updateTask b_completed_backend 30 31 ''b'' (only_completed False))) ''b'') =
     Some None \<and>
   map_sum id (\<lambda>r. (title r, completed_at r))
     (snd (updateTask b_completed_backend 30 31 ''b'' (title_only ''B2''))) =
     Inr (''B2'', Some 21)"
proof -
  have w: "map_option completed_at
     (stored (fst (updateTask b_completed_backend 30 31 ''b'' (only_completed False))) ''b'') =
     Some None"
    by code_simp
  have k: "map_sum id (\<lambda>r. (title r, completed_at r))
     (snd (updateTask b_completed_backend 30 31 ''b'' (title_only ''B2''))) =
     Inr (''B2'', Some 21)"
    by code_simp
  have r: "snd (updateTask b_completed_backend 30 31 ''b'' (only_completed False)) =
      Inr b_reopened_row"
    by code_simp
  have s: "map_option completed_at (stored b_completed_backend ''b'') = Some (Some 21)"
    by code_simp
  have "updateTask b_completed_backend 30 31 ''b'' (only_completed False) =
      (fst (updateTask b_completed_backend 30 31 ''b'' (only_completed False)), Inr b_reopened_row)"
    using r by (simp add: prod_eq_iff)
  from updateTask_completed_at [OF this]
  have "completed_at b_reopened_row = None"
    by (auto simp: only_completed_def)
  with r s w k show ?thesis by simp
qed

text \<open>
  C4 as stated fails: task B is completed with \<open>completed_at = 21\<close>; an update carrying
  \<open>completed = true\<close> at instant 31 returns and stores \<open>completed_at = 31\<close>.
\<close>

theorem completed_at_restamped_counterexample:
  "map_option completed (stored b_completed_backend ''b'') = Some True \<and>
   map_option completed_at (stored b_completed_backend ''b'') = Some (Some 21) \<and>
   map_sum id completed_at
     (snd (updateTask b_completed_backend 30 31 ''b'' (only_completed True))) = Inr (Some 31) \<and>
   map_option completed_at
     (stored (fst (updateTask b_completed_backend 30 31 ''b'' (only_completed True))) ''b'') =
     Some (Some 31)"
  by code_simp

text \<open>
  C3. Let a row with \<open>completed_at\<close> non-null exactly when \<open>completed\<close> be the one row
  with its id that the caller may update. Two successive updateTask calls, each carrying the
  negation of the row's current \<open>completed\<close>, both succeed, and the row returned by the
  second has the original \<open>completed\<close>, has \<open>completed_at\<close> null exactly when the
  original was (the original null when the row was not completed, the time of the second
  call when it was), and equals the original in every field but \<open>completed_at\<close> and
  \<open>updated_at\<close>.
\<close>

theorem toggle_twice:
  assumes "filter (\<lambda>r. task_id r = i \<and> rls_visible b r) (tasks_table b) = [t]"
    and "outage b = None"
    and "(completed_at t \<noteq> None) = completed t"
  shows "\<exists>b1 r1 b2 r2.
           updateTask b t1 t2 i (only_completed (\<not> completed t)) = (b1, Inr r1) \<and>
           completed r1 = (\<not> completed t) \<and>
           updateTask (b1\<lparr>server_now := n\<rparr>) t3 t4 i (only_completed (\<not> completed r1)) =
             (b2, Inr r2) \<and>
           completed r2 = completed t \<and>
           (completed_at r2 \<noteq> None) = (completed_at t \<noteq> None) \<and>
           (\<not> completed t \<longrightarrow> completed_at r2 = completed_at t) \<and>
           (completed t \<longrightarrow> completed_at r2 = Some t4) \<and>
           r2\<lparr>completed_at := completed_at t, updated_at := updated_at t\<rparr> = t \<and>
           filter (\<lambda>r. task_id r = i \<and> rls_visible b2 r) (tasks_table b2) = [r2]"
proof -
  let ?u1 = "only_completed (\<not> completed t)"
  let ?r1 = "update_updated_at_column b (apply_patch (updateData_of t1 t2 ?u1) t)"
  obtain b1 res1 where c1: "updateTask b t1 t2 i ?u1 = (b1, res1)"
    by (cases "updateTask b t1 t2 i ?u1")
  note first = updateTask_ok_hit(1,2) [OF assms(1,2) c1, of n]
  note res1 = updateTask_ok_hit(3) [OF assms(1,2) c1]
  have r1: "completed ?r1 = (\<not> completed t)"
    by (simp add: new_row_completed only_completed_def)
  let ?b1 = "b1\<lparr>server_now := n\<rparr>"
  let ?u2 = "only_completed (\<not> completed ?r1)"
  let ?r2 = "update_updated_at_column ?b1 (apply_patch (updateData_of t3 t4 ?u2) ?r1)"
  obtain b2 res2 where c2: "updateTask ?b1 t3 t4 i ?u2 = (b2, res2)"
    by (cases "updateTask ?b1 t3 t4 i ?u2")
  note second = updateTask_ok_hit(1,2) [OF first(1,2) c2, of "server_now b2"]
  note res2 = updateTask_ok_hit(3) [OF first(1,2) c2]
  have same: "b2\<lparr>server_now := server_now b2\<rparr> = b2" by simp
  have hit2: "filter (\<lambda>r. task_id r = i \<and> rls_visible b2 r) (tasks_table b2) = [?r2]"
    using second(1) unfolding same .
  have c: "completed ?r2 = completed t"
    by (simp add: new_row_completed only_completed_def)
  have at: "completed_at ?r2 = (if completed t then Some t4 else None)"
    by (simp add: new_row_completed_at new_row_completed only_completed_def)
  have rest: "?r2\<lparr>completed_at := completed_at t, updated_at := updated_at t\<rparr> = t"
    by (simp add: update_updated_at_column_def apply_patch_def updateData_of_sel
        only_completed_def)
  show ?thesis
    using c1 c2 res1 res2 r1 c at rest hit2 assms(3) by auto
qed

theorem toggle_twice_witness:
  "map_sum id (\<lambda>r. (completed r, completed_at r))
     (snd (updateTask
        ((fst (updateTask three_tasks_backend 20 21 ''b'' (only_completed True)))
           \<lparr>server_now := 13\<rparr>)
        30 31 ''b'' (only_completed False))) = Inr (completed b_row, completed_at b_row) \<and>
   map_sum id (\<lambda>r. (completed r, completed_at r))
     (snd (updateTask three_tasks_backend 20 21 ''b'' (only_completed True))) =
     Inr (True, Some 21)"
proof -
  have out: "outage three_tasks_backend = None" by code_simp
  have inv: "(completed_at b_row \<noteq> None) = completed b_row" by (simp add: b_row_def)
  have c: "\<not> completed b_row" by (simp add: b_row_def)
  from toggle_twice [OF b_row_hit out inv, of 20 21 13 30 31]
  obtain b1 r1 b2 r2 where
    1: "updateTask three_tasks_backend 20 21 ''b'' (only_completed (\<not> completed b_row)) =
          (b1, Inr r1)" and
    2: "completed r1 = (\<not> completed b_row)" and
    3: "updateTask (b1\<lparr>server_now := 13\<rparr>) 30 31 ''b'' (only_completed (\<not> completed r1)) =
          (b2, Inr r2)" and
    4: "completed r2 = completed b_row" and
    5: "\<not> completed b_row \<longrightarrow> completed_at r2 = completed_at b_row"
    by blast
  from 1 c have b1: "fst (updateTask three_tasks_backend 20 21 ''b'' (only_completed True)) = b1"
    by simp
  from 2 3 c have "snd (updateTask (b1\<lparr>server_now := 13\<rparr>) 30 31 ''b'' (only_completed False)) =
      Inr r2"
    by simp
  then have first: "map_sum id (\<lambda>r. (completed r, completed_at r))
     (snd (updateTask
        ((fst (updateTask three_tasks_backend 20 21 ''b'' (only_completed True)))
           \<lparr>server_now := 13\<rparr>)
        30 31 ''b'' (only_completed False))) = Inr (completed b_row, completed_at b_row)"
    using 4 5 c by (simp add: b1)
  have "map_sum id (\<lambda>r. (completed r, completed_at r))
     (snd (updateTask three_tasks_backend 20 21 ''b'' (only_completed True))) =
     Inr (True, Some 21)"
    by code_simp
  with first show ?thesis by simp
qed

section \<open>View-state controller: a failed toggle\<close>

lemma updateTask_failure_keeps_backend:
  "updateTask b t1 t2 i u = (b', Inl e) \<Longrightarrow> b' = b"
  using updateTask_outcome [of b t1 t2 i u] by auto

text \<open>
  C9. When the user toggles a task of the visible list and updateTask throws, toggleTask
  shows one alert with the error's message and changes nothing else: the visible task
  list, the animating set, the completed-history buffer and the scheduled removals are as
  before, and so is the backend.
\<close>

theorem toggleTask_failure:
  assumes "find (\<lambda>x. ui_id x = i) (tasks st) = Some task"
    and "updateTask b t1 t2 i (only_completed (ui_completed task \<noteq> Some True)) = (b', Inl e)"
  shows "toggleTask st b t1 t2 i = (st\<lparr>alerts := alerts st @ [toggle_alert e]\<rparr>, b) \<and>
         tasks (fst (toggleTask st b t1 t2 i)) = tasks st \<and>
         animatingTasks (fst (toggleTask st b t1 t2 i)) = animatingTasks st \<and>
         completedTasksHistory (fst (toggleTask st b t1 t2 i)) = completedTasksHistory st \<and>
         timeouts (fst (toggleTask st b t1 t2 i)) = timeouts st \<and>
         alerts (fst (toggleTask st b t1 t2 i)) = alerts st @ [toggle_alert e]"
proof -
  have "b' = b" using assms(2) by (rule updateTask_failure_keeps_backend)
  then have "toggleTask st b t1 t2 i = (st\<lparr>alerts := alerts st @ [toggle_alert e]\<rparr>, b)"
    using assms by (simp add: toggleTask_def Let_def)
  then show ?thesis by simp
qed

theorem toggleTask_failure_witness:
  "toggleTask three_tasks_view outage_backend 20 21 ''b'' =
     (three_tasks_view
        \<lparr>alerts := [''Failed to update task: Failed to update task: Failed to fetch (Code: undefined). Check console for details.'']\<rparr>,
      outage_backend)"
proof -
  have f: "find (\<lambda>x. ui_id x = ''b'') (tasks three_tasks_view) = Some (dbTaskToUITask b_row)"
    by code_simp
  have u: "updateTask outage_backend 20 21 ''b''
      (only_completed (ui_completed (dbTaskToUITask b_row) \<noteq> Some True)) =
      (outage_backend, Inl outage_error)"
    by code_simp
  have a: "alerts three_tasks_view = []" by code_simp
  have m: "toggle_alert outage_error =
    ''Failed to update task: Failed to update task: Failed to fetch (Code: undefined). Check console for details.''"
    by code_simp
  from toggleTask_failure [OF f u] show ?thesis by (simp add: a m)
qed

section \<open>AI assistant bridge: status codes\<close>




end
